theory Spec2Isabelle
  imports Main
begin

section \<open>JavaScript values used by the session client\<close>

text \<open>
  Parsed JSON as the client sees it after \<^verbatim>\<open>res.json()\<close>. An object is the list of
  its own properties; a property is looked up by name. Strings are byte strings.
\<close>

datatype json =
    JNull
  | JBool bool
  | JNum int
  | JStr string
  | JArr "json list"
  | JObj "(string \<times> json) list"

datatype error =
    TypeError
  | FetchFailed
  | SyntaxError
  | LoadFailed nat

text \<open>JavaScript truthiness of a JSON value.\<close>

fun truthy :: "json \<Rightarrow> bool" where
  "truthy JNull = False"
| "truthy (JBool b) = b"
| "truthy (JNum n) = (n \<noteq> 0)"
| "truthy (JStr s) = (s \<noteq> [])"
| "truthy (JArr xs) = True"
| "truthy (JObj kv) = True"

text \<open>
  Property read \<^verbatim>\<open>v.name\<close> on a value that is neither null nor undefined, for the
  names the client reads (\<^verbatim>\<open>session\<close>, \<^verbatim>\<open>root\<close>, \<^verbatim>\<open>content\<close>, \<^verbatim>\<open>uri\<close>, \<^verbatim>\<open>children\<close>):
  only an object has them; \<open>None\<close> is \<^verbatim>\<open>undefined\<close>.
\<close>

fun get_prop :: "json \<Rightarrow> string \<Rightarrow> json option" where
  "get_prop (JObj kv) name = map_of kv name"
| "get_prop _ name = None"

section \<open>URLSearchParams\<close>

text \<open>\<^verbatim>\<open>s.split(c)\<close> for a one-character separator.\<close>

fun split_on :: "char \<Rightarrow> string \<Rightarrow> string list" where
  "split_on c [] = [[]]"
| "split_on c (x # xs) =
     (if x = c then [] # split_on c xs
      else (case split_on c xs of
              [] \<Rightarrow> [[x]]
            | y # ys \<Rightarrow> (x # y) # ys))"

definition hexval :: "char \<Rightarrow> nat option" where
  "hexval c =
     (let n = (of_char c :: nat)
      in if 48 \<le> n \<and> n \<le> 57 then Some (n - 48)
         else if 65 \<le> n \<and> n \<le> 70 then Some (n - 55)
         else if 97 \<le> n \<and> n \<le> 102 then Some (n - 87)
         else None)"

text \<open>Percent-decoding of a byte string: \<^verbatim>\<open>%XX\<close> with two hex digits is one byte.\<close>

fun percent_decode :: "string \<Rightarrow> string" where
  "percent_decode [] = []"
| "percent_decode [c] = [c]"
| "percent_decode [c, d] = [c, d]"
| "percent_decode (c # a # b # rest) =
     (if c = CHR ''%'' then
        (case (hexval a, hexval b) of
           (Some h, Some l) \<Rightarrow> char_of (16 * h + l) # percent_decode rest
         | _ \<Rightarrow> c # percent_decode (a # b # rest))
      else c # percent_decode (a # b # rest))"

definition plus_to_space :: "string \<Rightarrow> string" where
  "plus_to_space s = map (\<lambda>c. if c = CHR ''+'' then CHR '' '' else c) s"

text \<open>One \<^verbatim>\<open>name=value\<close> sequence of a query string: split at the first \<^verbatim>\<open>=\<close>.\<close>

definition parse_pair :: "string \<Rightarrow> string \<times> string" where
  "parse_pair s =
     (let name = takeWhile (\<lambda>c. c \<noteq> CHR ''='') s;
          val = drop (Suc (length name)) s
      in (percent_decode (plus_to_space name), percent_decode (plus_to_space val)))"

text \<open>
  The \<^verbatim>\<open>application/x-www-form-urlencoded\<close> parser behind \<^verbatim>\<open>new URLSearchParams(s)\<close>:
  sequences are separated by \<^verbatim>\<open>&\<close>, empty sequences are skipped.
\<close>

definition parse_query :: "string \<Rightarrow> (string \<times> string) list" where
  "parse_query s = map parse_pair (filter (\<lambda>q. q \<noteq> []) (split_on CHR ''&'' s))"

text \<open>
  \<^verbatim>\<open>new URLSearchParams(init)\<close>: \<^verbatim>\<open>undefined\<close> gives the empty list; a leading
  \<^verbatim>\<open>?\<close> of a string is dropped.
\<close>

definition URLSearchParams :: "string option \<Rightarrow> (string \<times> string) list" where
  "URLSearchParams init =
     (case init of
        None \<Rightarrow> []
      | Some s \<Rightarrow> parse_query (case s of c # r \<Rightarrow> if c = CHR ''?'' then r else s | [] \<Rightarrow> s))"

text \<open>\<^verbatim>\<open>params.get(name)\<close>: the first value under the name, or null.\<close>

definition params_get :: "(string \<times> string) list \<Rightarrow> string \<Rightarrow> json" where
  "params_get ps name = (case map_of ps name of None \<Rightarrow> JNull | Some v \<Rightarrow> JStr v)"

section \<open>Token extraction\<close>

text \<open>The children of a tile, as the traversal reads them: the elements of the array.\<close>

definition children_of :: "json \<Rightarrow> json list" where
  "children_of tile = (case get_prop tile ''children'' of Some (JArr ts) \<Rightarrow> ts | _ \<Rightarrow> [])"

lemma size_map_of:
  "map_of kv k = Some v \<Longrightarrow> size v < Suc (size_list (size_prod (\<lambda>_. 0) size) kv)"
  by (induction kv) (auto split: if_splits)

lemma size_children_of:
  "size_list size (children_of tile) \<le> size tile"
proof (cases tile)
  case (JObj kv)
  show ?thesis
  proof (cases "map_of kv ''children''")
    case None
    with JObj show ?thesis by (simp add: children_of_def)
  next
    case (Some c)
    from size_map_of [OF Some] have "size c \<le> size tile" using JObj by simp
    then show ?thesis using JObj Some
      by (cases c) (simp_all add: children_of_def)
  qed
qed (simp_all add: children_of_def)

lemma size_children_of2:
  "2 * size_list size (children_of tile) < Suc (2 * size tile)"
  using size_children_of [of tile] by linarith

text \<open>
  Modelled from the spec: \<^verbatim>\<open>TraversalUtils.traverseSet\<close> is imported from the library core
  and is not among the sources. The spec describes the walk as a short-circuiting depth
  traversal that stops at the first node the callback accepts; it is modelled as a
  pre-order walk, children in array order. The callback may throw and updates the state
  it closes over, here passed explicitly.
\<close>

function traverseSet :: "(json \<Rightarrow> 's \<Rightarrow> error + bool \<times> 's) \<Rightarrow> json \<Rightarrow> 's \<Rightarrow> error + bool \<times> 's"
  and traverseTiles :: "(json \<Rightarrow> 's \<Rightarrow> error + bool \<times> 's) \<Rightarrow> json list \<Rightarrow> 's \<Rightarrow> error + bool \<times> 's"
  where
  "traverseSet cb tile s =
     (case cb tile s of
        Inl e \<Rightarrow> Inl e
      | Inr (stop, s') \<Rightarrow>
          if stop then Inr (True, s') else traverseTiles cb (children_of tile) s')"
| "traverseTiles cb [] s = Inr (False, s)"
| "traverseTiles cb (t # ts) s =
     (case traverseSet cb t s of
        Inl e \<Rightarrow> Inl e
      | Inr (stop, s') \<Rightarrow>
          if stop then Inr (True, s') else traverseTiles cb ts s')"
  by pat_completeness auto
termination
  by (relation "measure (\<lambda>x. case x of
        Inl (cb, tile, s) \<Rightarrow> Suc (2 * size tile)
      | Inr (cb, ts, s) \<Rightarrow> 2 * size_list size ts)")
     (auto simp: size_children_of2)

text \<open>
  The value of \<^verbatim>\<open>tile.content && tile.content.uri\<close>: a null tile throws, a falsy
  content or uri gives \<open>None\<close>, otherwise the uri.
\<close>

definition content_uri :: "json \<Rightarrow> error + json option" where
  "content_uri tile =
     (if tile = JNull then Inl TypeError
      else (case get_prop tile ''content'' of
              None \<Rightarrow> Inr None
            | Some c \<Rightarrow>
                (if \<not> truthy c then Inr None
                 else (case get_prop c ''uri'' of
                         None \<Rightarrow> Inr None
                       | Some u \<Rightarrow> (if truthy u then Inr (Some u) else Inr None)))))"

text \<open>
  \<^verbatim>\<open>const [ , params ] = uri.split( '?' ); new URLSearchParams( params ).get( 'session' )\<close>
\<close>

definition session_of_uri :: "string \<Rightarrow> json" where
  "session_of_uri uri =
     (let parts = split_on CHR ''?'' uri;
          params = (case parts of _ # p # _ \<Rightarrow> Some p | _ \<Rightarrow> None)
      in params_get (URLSearchParams params) ''session'')"

text \<open>
  The callback of \<^verbatim>\<open>getSessionToken\<close>; the state is the local \<^verbatim>\<open>sessionToken\<close>.
  \<^verbatim>\<open>split\<close> exists on strings only.
\<close>

definition token_callback :: "json \<Rightarrow> json \<Rightarrow> error + bool \<times> json" where
  "token_callback tile sessionToken =
     (case content_uri tile of
        Inl e \<Rightarrow> Inl e
      | Inr None \<Rightarrow> Inr (False, sessionToken)
      | Inr (Some u) \<Rightarrow>
          (case u of
             JStr uri \<Rightarrow> Inr (True, session_of_uri uri)
           | _ \<Rightarrow> Inl TypeError))"

text \<open>
  \<^verbatim>\<open>getSessionToken( json )\<close>. \<^verbatim>\<open>'session' in json\<close> throws on a primitive and is false
  on an array; an \<^verbatim>\<open>undefined\<close> root makes the first callback throw.
\<close>

definition getSessionToken :: "json \<Rightarrow> error + json" where
  "getSessionToken j =
     (case j of
        JObj kv \<Rightarrow>
          (case map_of kv ''session'' of
             Some v \<Rightarrow> Inr v
           | None \<Rightarrow>
               (case map_of kv ''root'' of
                  None \<Rightarrow> Inl TypeError
                | Some root \<Rightarrow>
                    (case traverseSet token_callback root JNull of
                       Inl e \<Rightarrow> Inl e
                     | Inr (_, tok) \<Rightarrow> Inr tok)))
      | JArr xs \<Rightarrow> Inl TypeError
      | _ \<Rightarrow> Inl TypeError)"

text \<open>
  The tiles of a manifest in the order the walk visits them, for stating what
  \<^verbatim>\<open>getSessionToken\<close> returns.
\<close>

function preorder :: "json \<Rightarrow> json list"
  and preorder_list :: "json list \<Rightarrow> json list" where
  "preorder tile = tile # preorder_list (children_of tile)"
| "preorder_list [] = []"
| "preorder_list (t # ts) = preorder t @ preorder_list ts"
  by pat_completeness auto
termination
  by (relation "measure (\<lambda>x. case x of
        Inl tile \<Rightarrow> Suc (2 * size tile)
      | Inr ts \<Rightarrow> 2 * size_list size ts)")
     (auto simp: size_children_of2)

text \<open>A tile the callback does not pass over: its content uri is truthy, or reading it throws.\<close>

definition has_content_uri :: "json \<Rightarrow> bool" where
  "has_content_uri tile = (content_uri tile \<noteq> Inr None)"

definition first_content_tile :: "json \<Rightarrow> json option" where
  "first_content_tile root = find has_content_uri (preorder root)"

text \<open>
  The extraction rule in the spec's words, for comparison with \<open>getSessionToken\<close>: the walk
  goes on until a node whose content reference is a URL with a \<^verbatim>\<open>session\<close> query
  parameter, and that parameter's value is the token.
\<close>

definition has_session_param :: "json \<Rightarrow> bool" where
  "has_session_param tile =
     (case content_uri tile of
        Inr (Some (JStr uri)) \<Rightarrow> session_of_uri uri \<noteq> JNull
      | _ \<Rightarrow> False)"

definition spec_getSessionToken :: "json \<Rightarrow> error + json" where
  "spec_getSessionToken j =
     (case j of
        JObj kv \<Rightarrow>
          (case map_of kv ''session'' of
             Some v \<Rightarrow> Inr v
           | None \<Rightarrow>
               (case map_of kv ''root'' of
                  None \<Rightarrow> Inl TypeError
                | Some root \<Rightarrow>
                    (case find has_session_param (preorder root) of
                       None \<Rightarrow> Inr JNull
                     | Some t \<Rightarrow>
                         (case content_uri t of
                            Inr (Some (JStr uri)) \<Rightarrow> Inr (session_of_uri uri)
                          | _ \<Rightarrow> Inr JNull))))
      | _ \<Rightarrow> Inl TypeError)"

section \<open>URLs\<close>

text \<open>
  The platform's \<^verbatim>\<open>URL\<close> class, read in a reduced form: an absolute URL is cut into
  scheme, authority, path, query and fragment at the first \<^verbatim>\<open>#\<close>, the first \<^verbatim>\<open>?\<close>,
  the first \<^verbatim>\<open>:\<close> and the slash that ends the authority. Components are kept as
  written (no percent-encoding, no host or dot-segment normalisation); only the scheme is
  lower-cased. A string with no valid scheme, or a special scheme with no authority, is
  rejected, as \<^verbatim>\<open>new URL\<close> throws on it.
\<close>

record url =
  scheme :: string
  host :: "string option"
  pathname :: string
  query :: "string option"
  fragment :: "string option"
  searchParams :: "(string \<times> string) list"

definition is_alpha :: "char \<Rightarrow> bool" where
  "is_alpha c =
     (let n = (of_char c :: nat) in (65 \<le> n \<and> n \<le> 90) \<or> (97 \<le> n \<and> n \<le> 122))"

definition is_digit :: "char \<Rightarrow> bool" where
  "is_digit c = (let n = (of_char c :: nat) in 48 \<le> n \<and> n \<le> 57)"

definition is_scheme_char :: "char \<Rightarrow> bool" where
  "is_scheme_char c =
     (is_alpha c \<or> is_digit c \<or> c = CHR ''+'' \<or> c = CHR ''-'' \<or> c = CHR ''.'')"

definition lower :: "char \<Rightarrow> char" where
  "lower c =
     (let n = (of_char c :: nat) in if 65 \<le> n \<and> n \<le> 90 then char_of (n + 32) else c)"

definition special_scheme :: "string \<Rightarrow> bool" where
  "special_scheme s = (s \<in> set [''http'', ''https'', ''ws'', ''wss'', ''ftp'', ''file''])"

text \<open>Cut a string at the first occurrence of a character; \<open>None\<close> when it does not occur.\<close>

definition cut :: "char \<Rightarrow> string \<Rightarrow> string \<times> string option" where
  "cut c s =
     (takeWhile (\<lambda>x. x \<noteq> c) s,
      case dropWhile (\<lambda>x. x \<noteq> c) s of [] \<Rightarrow> None | _ # r \<Rightarrow> Some r)"

text \<open>
  The URL of a scheme, what follows its colon, a query and a fragment: with a double slash
  an authority and a path, otherwise (for a scheme that is not special) an opaque path.
\<close>

definition url_of_parts :: "string \<Rightarrow> string \<Rightarrow> string option \<Rightarrow> string option \<Rightarrow> url option" where
  "url_of_parts sch rest q frag =
     (case sch of
        [] \<Rightarrow> None
      | c # _ \<Rightarrow>
          if is_alpha c \<and> list_all is_scheme_char sch then
            if take 2 rest = ''//'' then
              (let auth = takeWhile (\<lambda>x. x \<noteq> CHR ''/'') (drop 2 rest);
                   path = dropWhile (\<lambda>x. x \<noteq> CHR ''/'') (drop 2 rest)
               in if special_scheme (map lower sch) \<and> auth = [] then None
                  else Some \<lparr>scheme = map lower sch, host = Some auth,
                             pathname = (if path = [] \<and> special_scheme (map lower sch)
                                         then ''/'' else path),
                             query = q, fragment = frag,
                             searchParams = (case q of None \<Rightarrow> [] | Some qs \<Rightarrow> parse_query qs)\<rparr>)
            else if special_scheme (map lower sch) then None
            else Some \<lparr>scheme = map lower sch, host = None, pathname = rest,
                       query = q, fragment = frag,
                       searchParams = (case q of None \<Rightarrow> [] | Some qs \<Rightarrow> parse_query qs)\<rparr>
          else None)"

text \<open>\<^verbatim>\<open>new URL(s)\<close> without a base; \<open>None\<close> is the \<^verbatim>\<open>TypeError\<close> it throws.\<close>

definition new_URL :: "string \<Rightarrow> url option" where
  "new_URL s =
     (let (s1, frag) = cut CHR ''#'' s;
          (s2, q) = cut CHR ''?'' s1;
          (sch, after) = cut CHR '':'' s2
      in case after of
           None \<Rightarrow> None
         | Some rest \<Rightarrow> url_of_parts sch rest q frag)"

text \<open>\<^verbatim>\<open>url.toString()\<close>, the URL serializer.\<close>

definition href :: "url \<Rightarrow> string" where
  "href u =
     scheme u @ '':''
     @ (case host u of None \<Rightarrow> [] | Some h \<Rightarrow> ''//'' @ h)
     @ pathname u
     @ (case query u of None \<Rightarrow> [] | Some q \<Rightarrow> ''?'' @ q)
     @ (case fragment u of None \<Rightarrow> [] | Some f \<Rightarrow> ''#'' @ f)"

definition hex_char :: "nat \<Rightarrow> char" where
  "hex_char n = (if n < 10 then char_of (48 + n) else char_of (55 + n))"

text \<open>The \<^verbatim>\<open>application/x-www-form-urlencoded\<close> byte serializer.\<close>

definition form_encode :: "string \<Rightarrow> string" where
  "form_encode s =
     concat (map (\<lambda>c.
        if c = CHR '' '' then ''+''
        else if is_alpha c \<or> is_digit c \<or> c \<in> set ''*-._'' then [c]
        else [CHR ''%'', hex_char ((of_char c :: nat) div 16), hex_char ((of_char c :: nat) mod 16)]) s)"

fun join_amp :: "string list \<Rightarrow> string" where
  "join_amp [] = []"
| "join_amp [x] = x"
| "join_amp (x # y # ys) = x @ ''&'' @ join_amp (y # ys)"

definition serialize_query :: "(string \<times> string) list \<Rightarrow> string" where
  "serialize_query ps = join_amp (map (\<lambda>(n, v). form_encode n @ ''='' @ form_encode v) ps)"

text \<open>
  The update steps of \<^verbatim>\<open>searchParams\<close>: the list is serialized into the URL's query; an
  empty serialization clears the query.
\<close>

definition update_query :: "(string \<times> string) list \<Rightarrow> url \<Rightarrow> url" where
  "update_query ps u =
     u\<lparr>searchParams := ps,
       query := (if serialize_query ps = [] then None else Some (serialize_query ps))\<rparr>"

text \<open>\<^verbatim>\<open>url.searchParams.delete(name)\<close>\<close>

definition params_delete :: "string \<Rightarrow> url \<Rightarrow> url" where
  "params_delete name u = update_query (filter (\<lambda>(n, v). n \<noteq> name) (searchParams u)) u"

text \<open>
  \<^verbatim>\<open>url.searchParams.set(name, value)\<close>: the first entry under the name takes the value
  and the others are removed; with no such entry the pair is appended.
\<close>

fun set_first :: "string \<Rightarrow> string \<Rightarrow> (string \<times> string) list \<Rightarrow> (string \<times> string) list" where
  "set_first name v [] = []"
| "set_first name v ((n, x) # ps) =
     (if n = name then (n, v) # filter (\<lambda>(m, y). m \<noteq> name) ps
      else (n, x) # set_first name v ps)"

definition params_set :: "string \<Rightarrow> string \<Rightarrow> url \<Rightarrow> url" where
  "params_set name v u =
     update_query
       (if name \<in> fst ` set (searchParams u) then set_first name v (searchParams u)
        else searchParams u @ [(name, v)]) u"

text \<open>\<^verbatim>\<open>url.searchParams.get(name)\<close>; \<open>None\<close> is null.\<close>

definition params_get_url :: "string \<Rightarrow> url \<Rightarrow> string option" where
  "params_get_url name u = map_of (searchParams u) name"

text \<open>\<^verbatim>\<open>s.endsWith(suffix)\<close>\<close>

definition endsWith :: "string \<Rightarrow> string \<Rightarrow> bool" where
  "endsWith s suffix = (length suffix \<le> length s \<and> drop (length s - length suffix) s = suffix)"

section \<open>The session client \<^verbatim>\<open>GoogleCloudAuth\<close>\<close>

text \<open>\<^verbatim>\<open>String(v)\<close> of a JSON value, as \<^verbatim>\<open>searchParams.set\<close> applies it to its argument.\<close>

fun show_nat :: "nat \<Rightarrow> string" where
  "show_nat n =
     (if n < 10 then [char_of (48 + n)] else show_nat (n div 10) @ [char_of (48 + n mod 10)])"

declare show_nat.simps [simp del]

definition show_int :: "int \<Rightarrow> string" where
  "show_int i = (if i < 0 then ''-'' @ show_nat (nat (- i)) else show_nat (nat i))"

fun join_comma :: "string list \<Rightarrow> string" where
  "join_comma [] = []"
| "join_comma [x] = x"
| "join_comma (x # y # ys) = x @ '','' @ join_comma (y # ys)"

fun js_string :: "json \<Rightarrow> string" where
  "js_string JNull = ''null''"
| "js_string (JBool b) = (if b then ''true'' else ''false'')"
| "js_string (JNum n) = show_int n"
| "js_string (JStr s) = s"
| "js_string (JArr xs) = join_comma (map (\<lambda>x. if x = JNull then [] else js_string x) xs)"
| "js_string (JObj kv) = ''[object Object]''"

definition TILES_MAP_URL :: string where
  "TILES_MAP_URL = ''https://tile.googleapis.com/v1/createSession''"

record client =
  apiToken :: string
  autoRefreshToken :: bool
  authURL :: string
  sessionToken :: json
  sessionOptions :: json
  tokenRefreshPromise :: "nat option"
  proxyURL :: "string option"

definition isMapTilesSession :: "client \<Rightarrow> bool" where
  "isMapTilesSession c = (authURL c = TILES_MAP_URL)"

text \<open>The constructor, with the defaults of its destructuring.\<close>

definition GoogleCloudAuth :: "string \<Rightarrow> json option \<Rightarrow> bool option \<Rightarrow> string option \<Rightarrow> client" where
  "GoogleCloudAuth token sessOpts autoRefresh proxy =
     \<lparr>apiToken = token,
      autoRefreshToken = (case autoRefresh of None \<Rightarrow> False | Some b \<Rightarrow> b),
      authURL = TILES_MAP_URL,
      sessionToken = JNull,
      sessionOptions = (case sessOpts of None \<Rightarrow> JNull | Some v \<Rightarrow> v),
      tokenRefreshPromise = None,
      proxyURL = proxy\<rparr>"

text \<open>
  The options object handed to the platform's \<^verbatim>\<open>fetch\<close>. A body is either a string of the
  caller's or \<^verbatim>\<open>JSON.stringify\<close> of a value.
\<close>

datatype req_body = Raw string | JSON_stringify json

record fetch_options =
  http_method :: "string option"
  body :: "req_body option"
  headers :: "(string \<times> string) list option"

record request =
  req_url :: string
  req_options :: fetch_options

text \<open>
  A response: its status, and its body as \<^verbatim>\<open>res.json()\<close> parses it (\<open>None\<close> when the
  body is not JSON and \<^verbatim>\<open>res.json()\<close> rejects).
\<close>

record response =
  status :: nat
  json_body :: "json option"

definition ok :: "response \<Rightarrow> bool" where
  "ok res = (200 \<le> status res \<and> status res \<le> 299)"

datatype outcome = NetworkError | Response response

text \<open>
  What a call of the platform's \<^verbatim>\<open>fetch\<close> was made for: the auth endpoint (from
  \<^verbatim>\<open>refreshToken\<close>) or tile data (from \<^verbatim>\<open>fetch\<close>).
\<close>

datatype origin = Auth | Data

text \<open>
  The client together with what is outside it: the log of requests handed to the platform,
  and the promises made by \<^verbatim>\<open>refreshToken\<close>. A promise is named by the number of its auth
  request; it is pending (\<open>None\<close>), rejected (\<open>Inl\<close>) or fulfilled (\<open>Inr\<close>). The network is a
  function \<open>net\<close> giving the outcome of the \<open>k\<close>-th request of each origin.
\<close>

record world =
  client :: client
  sent :: "(origin \<times> request) list"
  promises :: "nat \<Rightarrow> (error + json) option"

definition nsent :: "origin \<Rightarrow> world \<Rightarrow> nat" where
  "nsent og w = length (filter (\<lambda>(k, r). k = og) (sent w))"

definition platform_fetch :: "origin \<Rightarrow> request \<Rightarrow> world \<Rightarrow> world" where
  "platform_fetch og req w = w\<lparr>sent := sent w @ [(og, req)]\<rparr>"

text \<open>
  The url that is dialled: the real url, or the proxy with the real url as its \<^verbatim>\<open>url\<close>
  parameter when a (non-empty) proxy is configured.
\<close>

definition via_proxy :: "client \<Rightarrow> url \<Rightarrow> error + string" where
  "via_proxy c target =
     (case proxyURL c of
        None \<Rightarrow> Inr (href target)
      | Some p \<Rightarrow>
          if p = [] then Inr (href target)
          else (case new_URL p of
                  None \<Rightarrow> Inl TypeError
                | Some f \<Rightarrow> Inr (href (params_set ''url'' (href target) f))))"

definition set_header :: "string \<Rightarrow> string \<Rightarrow> (string \<times> string) list \<Rightarrow> (string \<times> string) list" where
  "set_header k v hs =
     (if k \<in> fst ` set hs then map (\<lambda>(n, x). if n = k then (n, v) else (n, x)) hs
      else hs @ [(k, v)])"

definition auth_options :: "client \<Rightarrow> fetch_options \<Rightarrow> fetch_options" where
  "auth_options c options =
     (if isMapTilesSession c then
        options\<lparr>http_method := Some ''POST'',
                body := Some (JSON_stringify (sessionOptions c)),
                headers := Some (set_header ''Content-Type'' ''application/json''
                                  (case headers options of None \<Rightarrow> [] | Some hs \<Rightarrow> hs))\<rparr>
      else options)"

text \<open>
  \<^verbatim>\<open>refreshToken( options )\<close>: with no refresh in flight it builds the auth request, hands
  it to the platform and stores the promise; it returns the stored promise. Building a URL
  may throw.
\<close>

definition refreshToken :: "fetch_options \<Rightarrow> world \<Rightarrow> error + nat \<times> world" where
  "refreshToken options w =
     (case tokenRefreshPromise (client w) of
        Some p \<Rightarrow> Inr (p, w)
      | None \<Rightarrow>
          (case new_URL (authURL (client w)) of
             None \<Rightarrow> Inl TypeError
           | Some a \<Rightarrow>
               (case via_proxy (client w) (params_set ''key'' (apiToken (client w)) a) of
                  Inl e \<Rightarrow> Inl e
                | Inr fetchUrl \<Rightarrow>
                    (let p = nsent Auth w;
                         w1 = platform_fetch Auth
                                \<lparr>req_url = fetchUrl,
                                 req_options = auth_options (client w) options\<rparr> w
                     in Inr (p, w1\<lparr>client := (client w1)\<lparr>tokenRefreshPromise := Some p\<rparr>\<rparr>)))))"

text \<open>
  The two \<^verbatim>\<open>then\<close> callbacks on the auth response: a response that is not ok throws, the
  body is parsed, the token extracted. The result is the parsed body and the token.
\<close>

definition refresh_result :: "outcome \<Rightarrow> error + json \<times> json" where
  "refresh_result out =
     (case out of
        NetworkError \<Rightarrow> Inl FetchFailed
      | Response res \<Rightarrow>
          if \<not> ok res then Inl (LoadFailed (status res))
          else (case json_body res of
                  None \<Rightarrow> Inl SyntaxError
                | Some j \<Rightarrow>
                    (case getSessionToken j of
                       Inl e \<Rightarrow> Inl e
                     | Inr tok \<Rightarrow> Inr (j, tok))))"

text \<open>
  The promise \<open>p\<close> settles on the outcome of its request. Only the second callback, which
  runs when nothing before it threw, stores the token and clears
  \<^verbatim>\<open>_tokenRefreshPromise\<close>; the chain has no rejection handler.
\<close>

definition settle :: "nat \<Rightarrow> outcome \<Rightarrow> world \<Rightarrow> world" where
  "settle p out w =
     (case refresh_result out of
        Inl e \<Rightarrow> w\<lparr>promises := (promises w)(p \<mapsto> Inl e)\<rparr>
      | Inr (j, tok) \<Rightarrow>
          w\<lparr>client := (client w)\<lparr>sessionToken := tok, tokenRefreshPromise := None\<rparr>,
            promises := (promises w)(p \<mapsto> Inr j)\<rparr>)"

text \<open>\<^verbatim>\<open>await p\<close>: a settled promise gives its result; a pending one settles first.\<close>

definition await_promise :: "(origin \<Rightarrow> nat \<Rightarrow> outcome) \<Rightarrow> nat \<Rightarrow> world \<Rightarrow> (error + json) \<times> world" where
  "await_promise net p w =
     (case promises w p of
        Some r \<Rightarrow> (r, w)
      | None \<Rightarrow> (map_sum id fst (refresh_result (net Auth p)), settle p (net Auth p) w))"

text \<open>
  The synchronous start of \<^verbatim>\<open>fetch\<close>, up to its first \<^verbatim>\<open>await\<close>: in map tiles mode with
  no token a refresh is started (or the one in flight is kept).
\<close>

definition fetch_begin :: "fetch_options \<Rightarrow> world \<Rightarrow> error + world" where
  "fetch_begin options w =
     (if sessionToken (client w) = JNull \<and> isMapTilesSession (client w) then
        (case refreshToken options w of Inl e \<Rightarrow> Inl e | Inr (p, w1) \<Rightarrow> Inr w1)
      else Inr w)"

text \<open>\<^verbatim>\<open>await this._tokenRefreshPromise\<close>; awaiting null goes on at once.\<close>

definition await_refresh :: "(origin \<Rightarrow> nat \<Rightarrow> outcome) \<Rightarrow> world \<Rightarrow> (error + unit) \<times> world" where
  "await_refresh net w =
     (case tokenRefreshPromise (client w) of
        None \<Rightarrow> (Inr (), w)
      | Some p \<Rightarrow>
          (case await_promise net p w of
             (Inl e, w1) \<Rightarrow> (Inl e, w1)
           | (Inr j, w1) \<Rightarrow> (Inr (), w1)))"

text \<open>What \<^verbatim>\<open>fetch\<close> resolves to: the response, or in the 3D tiles case the parsed body.\<close>

datatype fetched = Res response | Json json

text \<open>The end of \<^verbatim>\<open>fetch\<close>: with no token outside map tiles mode the body is parsed and searched.\<close>

definition deliver :: "response \<Rightarrow> world \<Rightarrow> (error + fetched) \<times> world" where
  "deliver res w =
     (if sessionToken (client w) = JNull \<and> \<not> isMapTilesSession (client w) then
        (case json_body res of
           None \<Rightarrow> (Inl SyntaxError, w)
         | Some j \<Rightarrow>
             (case getSessionToken j of
                Inl e \<Rightarrow> (Inl e, w)
              | Inr tok \<Rightarrow> (Inr (Json j), w\<lparr>client := (client w)\<lparr>sessionToken := tok\<rparr>\<rparr>)))
      else (Inr (Res res), w))"

definition with_session :: "client \<Rightarrow> url \<Rightarrow> url" where
  "with_session c u =
     (if truthy (sessionToken c) then params_set ''session'' (js_string (sessionToken c)) u
      else u)"

text \<open>The refresh and the one resend after a 4xx answer.\<close>

definition retry :: "(origin \<Rightarrow> nat \<Rightarrow> outcome) \<Rightarrow> url \<Rightarrow> fetch_options \<Rightarrow> world \<Rightarrow> (error + fetched) \<times> world" where
  "retry net googleUrl options w =
     (case refreshToken options w of
        Inl e \<Rightarrow> (Inl e, w)
      | Inr (p, w1) \<Rightarrow>
          (case await_promise net p w1 of
             (Inl e, w2) \<Rightarrow> (Inl e, w2)
           | (Inr j, w2) \<Rightarrow>
               (case via_proxy (client w2) (with_session (client w2) googleUrl) of
                  Inl e \<Rightarrow> (Inl e, w2)
                | Inr fetchUrl \<Rightarrow>
                    (let k = nsent Data w2;
                         w3 = platform_fetch Data \<lparr>req_url = fetchUrl, req_options = options\<rparr> w2
                     in case net Data k of
                          NetworkError \<Rightarrow> (Inl FetchFailed, w3)
                        | Response res \<Rightarrow> deliver res w3))))"

text \<open>\<^verbatim>\<open>fetch\<close> after its first \<^verbatim>\<open>await\<close>.\<close>

definition fetch_send :: "(origin \<Rightarrow> nat \<Rightarrow> outcome) \<Rightarrow> string \<Rightarrow> fetch_options \<Rightarrow> world \<Rightarrow> (error + fetched) \<times> world" where
  "fetch_send net url options w =
     (case new_URL url of
        None \<Rightarrow> (Inl TypeError, w)
      | Some g \<Rightarrow>
          (let googleUrl = with_session (client w) (params_set ''key'' (apiToken (client w)) g)
           in case via_proxy (client w) googleUrl of
                Inl e \<Rightarrow> (Inl e, w)
              | Inr fetchUrl \<Rightarrow>
                  (let k = nsent Data w;
                       w1 = platform_fetch Data \<lparr>req_url = fetchUrl, req_options = options\<rparr> w
                   in case net Data k of
                        NetworkError \<Rightarrow> (Inl FetchFailed, w1)
                      | Response res \<Rightarrow>
                          if 400 \<le> status res \<and> status res \<le> 499
                             \<and> autoRefreshToken (client w1)
                          then retry net googleUrl options w1
                          else deliver res w1)))"

text \<open>\<^verbatim>\<open>fetch( url, options )\<close>, run to its end with no other task in between.\<close>

definition fetch :: "(origin \<Rightarrow> nat \<Rightarrow> outcome) \<Rightarrow> string \<Rightarrow> fetch_options \<Rightarrow> world \<Rightarrow> (error + fetched) \<times> world" where
  "fetch net url options w =
     (case fetch_begin options w of
        Inl e \<Rightarrow> (Inl e, w)
      | Inr w1 \<Rightarrow>
          (case await_refresh net w1 of
             (Inl e, w2) \<Rightarrow> (Inl e, w2)
           | (Inr u, w2) \<Rightarrow> fetch_send net url options w2))"


text \<open>A client that has made no request yet.\<close>

definition start :: "client \<Rightarrow> world" where
  "start c = \<lparr>client = c, sent = [], promises = (\<lambda>p. None)\<rparr>"

definition no_options :: fetch_options where
  "no_options = \<lparr>http_method = None, body = None, headers = None\<rparr>"



text \<open>The fields of the client that only the constructor or its owner sets.\<close>

definition same_config :: "client \<Rightarrow> client \<Rightarrow> bool" where
  "same_config c c' =
     (apiToken c' = apiToken c \<and> autoRefreshToken c' = autoRefreshToken c \<and>
      authURL c' = authURL c \<and> sessionOptions c' = sessionOptions c \<and>
      proxyURL c' = proxyURL c)"

section \<open>The caching proxy: cache keys\<close>

definition CACHE_DIR :: string where
  "CACHE_DIR = ''tile-cache''"

text \<open>
  \<^verbatim>\<open>urlToCachePath\<close>: the file of a key string is named by its SHA-1 digest in hex. The
  digest is the platform's and is a parameter here.
\<close>

definition urlToCachePath :: "(string \<Rightarrow> string) \<Rightarrow> string \<Rightarrow> string" where
  "urlToCachePath sha1 urlString = CACHE_DIR @ ''/'' @ sha1 urlString"

text \<open>
  \<^verbatim>\<open>cacheKey\<close>: a copy of the target, made by parsing its serialization again, loses its
  \<^verbatim>\<open>key\<close> and \<^verbatim>\<open>session\<close> parameters and is serialized.
\<close>

definition cacheKey :: "url \<Rightarrow> error + string" where
  "cacheKey target =
     (case new_URL (href target) of
        None \<Rightarrow> Inl TypeError
      | Some cacheKeyUrl \<Rightarrow>
          Inr (href (params_delete ''session'' (params_delete ''key'' cacheKeyUrl))))"

text \<open>
  The string handed to \<^verbatim>\<open>urlToCachePath\<close>, by the suffix of the target's path: the key of
  a \<^verbatim>\<open>.glb\<close>, the key of a \<^verbatim>\<open>.json\<close> behind the prefix \<^verbatim>\<open>json:\<close>, and nothing
  (\<^verbatim>\<open>cachePath\<close> stays null) for anything else.
\<close>

definition hashed_string :: "url \<Rightarrow> error + string option" where
  "hashed_string target =
     (if endsWith (pathname target) ''.glb'' then
        (case cacheKey target of Inl e \<Rightarrow> Inl e | Inr k \<Rightarrow> Inr (Some k))
      else if endsWith (pathname target) ''.json'' then
        (case cacheKey target of Inl e \<Rightarrow> Inl e | Inr k \<Rightarrow> Inr (Some (''json:'' @ k)))
      else Inr None)"

definition cachePath :: "(string \<Rightarrow> string) \<Rightarrow> url \<Rightarrow> error + string option" where
  "cachePath sha1 target =
     (case hashed_string target of
        Inl e \<Rightarrow> Inl e
      | Inr None \<Rightarrow> Inr None
      | Inr (Some k) \<Rightarrow> Inr (Some (urlToCachePath sha1 k)))"

text \<open>
  Two parsed URLs that differ at most in the values or the presence of their \<^verbatim>\<open>key\<close>
  and \<^verbatim>\<open>session\<close> query parameters.
\<close>

definition not_credential :: "string \<times> string \<Rightarrow> bool" where
  "not_credential p = (fst p \<noteq> ''key'' \<and> fst p \<noteq> ''session'')"

definition same_but_credentials :: "url \<Rightarrow> url \<Rightarrow> bool" where
  "same_but_credentials u v =
     (scheme u = scheme v \<and> host u = host v \<and> pathname u = pathname v \<and>
      fragment u = fragment v \<and>
      filter not_credential (searchParams u) = filter not_credential (searchParams v))"

(*VERIFICATION*)

section \<open>Token extraction: what the walk returns\<close>

lemma token_callback_skip:
  "\<not> has_content_uri t \<Longrightarrow> token_callback t s = Inr (False, s)"
  by (simp add: has_content_uri_def token_callback_def)

lemma token_callback_stop:
  "has_content_uri t \<Longrightarrow> token_callback t s = Inr (b, s') \<Longrightarrow> b"
  by (auto simp: has_content_uri_def token_callback_def
      split: sum.splits option.splits json.splits)

lemma find_app:
  "find P (xs @ ys) = (case find P xs of None \<Rightarrow> find P ys | Some x \<Rightarrow> Some x)"
  by (induction xs) auto

lemma traverse_find:
  "traverseSet token_callback t s =
     (case find has_content_uri (preorder t) of
        None \<Rightarrow> Inr (False, s)
      | Some t' \<Rightarrow> token_callback t' s)"
  "traverseTiles token_callback ts s =
     (case find has_content_uri (preorder_list ts) of
        None \<Rightarrow> Inr (False, s)
      | Some t' \<Rightarrow> token_callback t' s)"
proof (induction "token_callback" t s and "token_callback" ts s
    rule: traverseSet_traverseTiles.induct)
  case (1 tile s)
  show ?case
  proof (cases "has_content_uri tile")
    case True
    then show ?thesis
      by (auto split: sum.splits dest: token_callback_stop)
  next
    case False
    then show ?thesis using 1 [OF token_callback_skip [OF False]]
      by (simp add: token_callback_skip)
  qed
next
  case (2 s)
  then show ?case by simp
next
  case (3 t ts s)
  show ?case
  proof (cases "find has_content_uri (preorder t)")
    case None
    with 3(1) have r: "traverseSet token_callback t s = Inr (False, s)"
      by (simp del: preorder.simps traverseSet.simps)
    have "traverseTiles token_callback ts s =
       (case find has_content_uri (preorder_list ts) of
          None \<Rightarrow> Inr (False, s)
        | Some t' \<Rightarrow> token_callback t' s)"
      by (rule 3(2) [OF r refl]) simp
    then show ?thesis using r None
      by (simp add: find_app del: preorder.simps traverseSet.simps)
  next
    case (Some t')
    then have h: "has_content_uri t'"
      by (auto simp: find_Some_iff simp del: preorder.simps)
    show ?thesis using 3(1) Some h
      by (auto simp: find_app simp del: preorder.simps traverseSet.simps
          split: sum.splits dest: token_callback_stop)
  qed
qed

text \<open>
  C4, as the code has it. A response object with a \<^verbatim>\<open>session\<close> field yields that field's
  value. Otherwise the manifest under \<^verbatim>\<open>root\<close> is walked and the walk stops at the first
  tile that has a content uri, whether or not that uri carries a \<^verbatim>\<open>session\<close> parameter:
  when the uri is a string the token is the value of the \<^verbatim>\<open>session\<close> parameter in the
  text between its first and second question mark, or null when there is none. A manifest
  in which no tile has a content uri yields null and no error.
\<close>

theorem getSessionToken_first_content_uri:
  "(map_of kv ''session'' = Some v \<longrightarrow> getSessionToken (JObj kv) = Inr v) \<and>
   (map_of kv ''session'' = None \<and> map_of kv ''root'' = Some root \<longrightarrow>
      (case first_content_tile root of
         None \<Rightarrow> getSessionToken (JObj kv) = Inr JNull
       | Some t \<Rightarrow>
           (\<forall>uri. content_uri t = Inr (Some (JStr uri)) \<longrightarrow>
              getSessionToken (JObj kv) = Inr (session_of_uri uri))))"
proof (intro conjI impI)
  assume "map_of kv ''session'' = Some v"
  then show "getSessionToken (JObj kv) = Inr v"
    by (simp add: getSessionToken_def)
next
  assume a: "map_of kv ''session'' = None \<and> map_of kv ''root'' = Some root"
  show "case first_content_tile root of
          None \<Rightarrow> getSessionToken (JObj kv) = Inr JNull
        | Some t \<Rightarrow>
            (\<forall>uri. content_uri t = Inr (Some (JStr uri)) \<longrightarrow>
               getSessionToken (JObj kv) = Inr (session_of_uri uri))"
  proof (cases "first_content_tile root")
    case None
    then show ?thesis using a traverse_find(1) [of root JNull]
      by (simp add: getSessionToken_def first_content_tile_def
          del: traverseSet.simps preorder.simps)
  next
    case (Some t)
    then show ?thesis using a traverse_find(1) [of root JNull]
      by (auto simp: getSessionToken_def first_content_tile_def token_callback_def
          simp del: traverseSet.simps preorder.simps)
  qed
qed

theorem getSessionToken_first_content_uri_witness:
  "getSessionToken (JObj [(''session'', JStr ''abc'')]) = Inr (JStr ''abc'') \<and>
   getSessionToken (JObj [(''root'', JObj [(''children'', JArr
      [JObj [(''content'', JObj [(''uri'', JStr ''mesh.glb?session=xyz&other=1'')])]])])])
     = Inr (JStr ''xyz'') \<and>
   getSessionToken (JObj [(''root'', JObj [(''children'', JArr [JObj []])])]) = Inr JNull"
proof -
  let ?t = "JObj [(''content'', JObj [(''uri'', JStr ''mesh.glb?session=xyz&other=1'')])]"
  let ?r1 = "JObj [(''children'', JArr [?t])]"
  let ?r2 = "JObj [(''children'', JArr [JObj []])]"
  have s: "session_of_uri ''mesh.glb?session=xyz&other=1'' = JStr ''xyz''"
    by code_simp
  have f1: "first_content_tile ?r1 = Some ?t"
    by (simp add: first_content_tile_def has_content_uri_def content_uri_def children_of_def)
  have c1: "content_uri ?t = Inr (Some (JStr ''mesh.glb?session=xyz&other=1''))"
    by (simp add: content_uri_def)
  have f2: "first_content_tile ?r2 = None"
    by (simp add: first_content_tile_def has_content_uri_def content_uri_def children_of_def)
  have 1: "getSessionToken (JObj [(''session'', JStr ''abc'')]) = Inr (JStr ''abc'')"
    using getSessionToken_first_content_uri [of "[(''session'', JStr ''abc'')]" "JStr ''abc''"]
    by simp
  have 2: "getSessionToken (JObj [(''root'', ?r1)]) = Inr (JStr ''xyz'')"
    using getSessionToken_first_content_uri [of "[(''root'', ?r1)]" _ ?r1] f1 c1 s
    by simp
  have 3: "getSessionToken (JObj [(''root'', ?r2)]) = Inr JNull"
    using getSessionToken_first_content_uri [of "[(''root'', ?r2)]" _ ?r2] f2
    by simp
  from 1 2 3 show ?thesis by simp
qed

text \<open>
  C4 as stated fails: the root tile has a content uri without a \<^verbatim>\<open>session\<close> parameter
  and its child has one with \<^verbatim>\<open>session=xyz\<close>. The stated rule walks on to the child and
  yields \<^verbatim>\<open>xyz\<close>; the code stops at the root and yields null.
\<close>

theorem getSessionToken_stops_without_session_counterexample:
  "getSessionToken (JObj [(''root'', JObj
      [(''content'', JObj [(''uri'', JStr ''a.glb'')]),
       (''children'', JArr
          [JObj [(''content'', JObj [(''uri'', JStr ''mesh.glb?session=xyz&other=1'')])]])])])
     = Inr JNull \<and>
   spec_getSessionToken (JObj [(''root'', JObj
      [(''content'', JObj [(''uri'', JStr ''a.glb'')]),
       (''children'', JArr
          [JObj [(''content'', JObj [(''uri'', JStr ''mesh.glb?session=xyz&other=1'')])]])])])
     = Inr (JStr ''xyz'')"
  by code_simp

section \<open>The session client: refresh in flight\<close>









text \<open>
  C1 on the failure path. The auth endpoint answers the first refresh with 403 and would
  answer any later one with a session. The first \<^verbatim>\<open>fetch\<close> fails with the refresh's
  error and leaves \<^verbatim>\<open>_tokenRefreshPromise\<close> set to the rejected promise; the second
  \<^verbatim>\<open>fetch\<close> starts no new refresh (one auth request in all) and fails with the same old
  error.
\<close>

theorem failed_refresh_keeps_marker:
  "fst (fetch (\<lambda>og k. if og = Auth \<and> k = 0 then Response \<lparr>status = 403, json_body = None\<rparr>
                 else Response \<lparr>status = 200, json_body = Some (JObj [(''session'', JStr ''abc'')])\<rparr>)
          ''https://tile.googleapis.com/v1/2dtiles/0/0/0'' no_options
          (start (GoogleCloudAuth ''K'' None None None)))
     = Inl (LoadFailed 403) \<and>
   tokenRefreshPromise (client (snd
     (fetch (\<lambda>og k. if og = Auth \<and> k = 0 then Response \<lparr>status = 403, json_body = None\<rparr>
                 else Response \<lparr>status = 200, json_body = Some (JObj [(''session'', JStr ''abc'')])\<rparr>)
          ''https://tile.googleapis.com/v1/2dtiles/0/0/0'' no_options
          (start (GoogleCloudAuth ''K'' None None None)))))
     = Some 0 \<and>
   fst (fetch (\<lambda>og k. if og = Auth \<and> k = 0 then Response \<lparr>status = 403, json_body = None\<rparr>
                 else Response \<lparr>status = 200, json_body = Some (JObj [(''session'', JStr ''abc'')])\<rparr>)
          ''https://tile.googleapis.com/v1/2dtiles/0/0/0'' no_options
          (snd (fetch (\<lambda>og k. if og = Auth \<and> k = 0 then Response \<lparr>status = 403, json_body = None\<rparr>
                 else Response \<lparr>status = 200, json_body = Some (JObj [(''session'', JStr ''abc'')])\<rparr>)
          ''https://tile.googleapis.com/v1/2dtiles/0/0/0'' no_options
          (start (GoogleCloudAuth ''K'' None None None)))))
     = Inl (LoadFailed 403) \<and>
   nsent Auth (snd (fetch (\<lambda>og k. if og = Auth \<and> k = 0 then Response \<lparr>status = 403, json_body = None\<rparr>
                 else Response \<lparr>status = 200, json_body = Some (JObj [(''session'', JStr ''abc'')])\<rparr>)
          ''https://tile.googleapis.com/v1/2dtiles/0/0/0'' no_options
          (snd (fetch (\<lambda>og k. if og = Auth \<and> k = 0 then Response \<lparr>status = 403, json_body = None\<rparr>
                 else Response \<lparr>status = 200, json_body = Some (JObj [(''session'', JStr ''abc'')])\<rparr>)
          ''https://tile.googleapis.com/v1/2dtiles/0/0/0'' no_options
          (start (GoogleCloudAuth ''K'' None None None))))))
     = 1"
  by code_simp

section \<open>The session client: one refresh and one resend\<close>

lemma same_config_refl [simp]: "same_config c c"
  by (simp add: same_config_def)
























section \<open>The session client: the first response in 3D tiles mode\<close>





end
